theory Spec2Isabelle
  imports Main "HOL-Library.Sublist"
begin

section \<open>News content extraction and impact prompt (web\_scraper.py)\<close>

text \<open>
  The module \<^verbatim>\<open>app/core/langraph/tools/web_scraper.py\<close> fetches a page, picks a content
  region of the parsed document, normalises and truncates its text and wraps it in a prompt.
  The HTTP client, the HTML parser and the regular-expression engine are libraries; their
  observable behaviour is modelled here as far as the module relies on it:
  \<^item> the outcome of \<^verbatim>\<open>requests.get\<close> and of the \<^verbatim>\<open>BeautifulSoup\<close> constructor is given by
    the environment (a \<open>world\<close>), each either raising or returning;
  \<^item> the parsed document is a tree of tags and strings;
  \<^item> a Python \<^verbatim>\<open>str\<close> is a list of characters with code points below 256.
\<close>

subsection \<open>Python strings\<close>

text \<open>\<^verbatim>\<open>str.isspace\<close> on the code points below 256.\<close>

definition isspace :: "char \<Rightarrow> bool" where
  "isspace c = (c \<in> set [CHR 0x09, CHR 0x0A, CHR 0x0B, CHR 0x0C, CHR 0x0D,
                          CHR 0x1C, CHR 0x1D, CHR 0x1E, CHR 0x1F, CHR 0x20,
                          CHR 0x85, CHR 0xA0])"

text \<open>
  \<^verbatim>\<open>s.split()\<close> without arguments: the maximal runs of non-whitespace characters, in order.
  The first argument is the word read so far.
\<close>

fun split_acc :: "string \<Rightarrow> string \<Rightarrow> string list" where
  "split_acc w [] = (if w = [] then [] else [w])"
| "split_acc w (c # cs) =
     (if isspace c then (if w = [] then split_acc [] cs else w # split_acc [] cs)
      else split_acc (w @ [c]) cs)"

definition split :: "string \<Rightarrow> string list" where
  "split s = split_acc [] s"

text \<open>\<^verbatim>\<open>sep.join(ws)\<close>.\<close>

fun join :: "string \<Rightarrow> string list \<Rightarrow> string" where
  "join sep [] = []"
| "join sep [w] = w"
| "join sep (w # v # ws) = w @ sep @ join sep (v # ws)"

text \<open>\<^verbatim>\<open>s.strip()\<close> without arguments.\<close>

definition strip :: "string \<Rightarrow> string" where
  "strip s = rev (dropWhile isspace (rev (dropWhile isspace s)))"

text \<open>
  \<^verbatim>\<open>xs[:k]\<close> for a Python integer \<open>k\<close>: a negative bound counts from the end of the list.
\<close>

definition slice_to :: "int \<Rightarrow> 'a list \<Rightarrow> 'a list" where
  "slice_to k xs = (if 0 \<le> k then take (nat k) xs else take (length xs - nat (- k)) xs)"

subsection \<open>The regular expression\<close>

text \<open>
  \<^verbatim>\<open>re.compile(r'(article|content|main-content)', re.I)\<close>, used through \<^verbatim>\<open>search\<close>: some
  substring equals one of the three alternatives up to the case of the letters.
\<close>

definition lower_char :: "char \<Rightarrow> char" where
  "lower_char c =
     (case map_of (zip ''ABCDEFGHIJKLMNOPQRSTUVWXYZ'' ''abcdefghijklmnopqrstuvwxyz'') c of
        Some d \<Rightarrow> d
      | None \<Rightarrow> c)"

fun contains :: "string \<Rightarrow> string \<Rightarrow> bool" where
  "contains pat [] = (pat = [])"
| "contains pat (c # cs) = (prefix pat (c # cs) \<or> contains pat cs)"

definition re_search :: "string \<Rightarrow> bool" where
  "re_search s =
     (let t = map lower_char s
      in contains ''article'' t \<or> contains ''content'' t \<or> contains ''main-content'' t)"

subsection \<open>Parsed documents\<close>

text \<open>
  An attribute value is a string, or a list of strings for the multi-valued \<^verbatim>\<open>class\<close>.
  A node is a string that \<^verbatim>\<open>get_text\<close> yields (\<open>NavigableString\<close>), a string of a class that
  it leaves out (\<open>Comment\<close>: comments, declarations, and the like), or a tag with its name,
  attribute dictionary and children.
\<close>

datatype attr_value = AttrStr string | AttrList "string list"

datatype node =
    NavigableString string
  | Comment string
  | Tag string "(string \<times> attr_value) list" "node list"

text \<open>
  How the library matches an attribute value against a compiled pattern: a missing
  attribute never matches; a list matches when one of its items does, or when the items
  joined by single spaces do.
\<close>

fun attr_matches :: "attr_value option \<Rightarrow> bool" where
  "attr_matches None = False"
| "attr_matches (Some (AttrStr s)) = re_search s"
| "attr_matches (Some (AttrList vs)) = (list_ex re_search vs \<or> re_search (join '' '' vs))"

fun named :: "string \<Rightarrow> node \<Rightarrow> bool" where
  "named nm (Tag n a cs) = (n = nm)"
| "named nm (NavigableString s) = False"
| "named nm (Comment s) = False"

fun named_with :: "string \<Rightarrow> string \<Rightarrow> node \<Rightarrow> bool" where
  "named_with nm key (Tag n a cs) = (n = nm \<and> attr_matches (map_of a key))"
| "named_with nm key (NavigableString s) = False"
| "named_with nm key (Comment s) = False"

text \<open>
  \<^verbatim>\<open>soup.find(...)\<close>: the first tag below the root, in document order (a tag before its
  children, children before later siblings), that satisfies the criteria.
\<close>

fun find_first :: "(node \<Rightarrow> bool) \<Rightarrow> node list \<Rightarrow> node option" where
  "find_first p [] = None"
| "find_first p (NavigableString s # ns) = find_first p ns"
| "find_first p (Comment s # ns) = find_first p ns"
| "find_first p (Tag n a cs # ns) =
     (if p (Tag n a cs) then Some (Tag n a cs)
      else (case find_first p cs of
              Some t \<Rightarrow> Some t
            | None \<Rightarrow> find_first p ns))"

text \<open>
  \<^verbatim>\<open>tag.get_text(strip=True)\<close>: every string below the tag is stripped on its own, the
  ones left empty are dropped, and the rest are concatenated with the empty separator.
\<close>

fun all_strings :: "node \<Rightarrow> string list" where
  "all_strings (NavigableString s) = (if strip s = [] then [] else [strip s])"
| "all_strings (Comment s) = []"
| "all_strings (Tag n a cs) = concat (map all_strings cs)"

definition get_text_strip :: "node \<Rightarrow> string" where
  "get_text_strip c = concat (all_strings c)"

text \<open>
  The text of an element as \<^verbatim>\<open>tag.text\<close> gives it: the strings below the tag,
  concatenated as they are.
\<close>

fun text_content :: "node \<Rightarrow> string" where
  "text_content (NavigableString s) = s"
| "text_content (Comment s) = []"
| "text_content (Tag n a cs) = concat (map text_content cs)"

subsection \<open>The environment\<close>

datatype request_error = Timeout | ConnectionError | HTTPError | OtherRequestError

datatype exn = RequestException request_error | ValueError | OtherException

record response =
  status_code :: nat
  text' :: string

record world =
  requests_get :: "string \<Rightarrow> exn + response"
  BeautifulSoup :: "string \<Rightarrow> exn + node list"

text \<open>\<^verbatim>\<open>response.raise_for_status()\<close> raises \<^verbatim>\<open>HTTPError\<close> for the 4xx and 5xx codes.\<close>

definition raise_for_status :: "response \<Rightarrow> exn + unit" where
  "raise_for_status r =
     (if 400 \<le> status_code r \<and> status_code r < 600 then Inl (RequestException HTTPError)
      else Inr ())"

text \<open>
  What a call leaves behind, in order: a line printed by the exception handler, and the
  evaluation of the prompt template.
\<close>

datatype event = Printed string exn | FormatPrompt

subsection \<open>extract\_news\_content\<close>

definition content_candidates :: "node list \<Rightarrow> node option list" where
  "content_candidates soup =
     [find_first (named ''article'') soup,
      find_first (named_with ''div'' ''class'') soup,
      find_first (named_with ''div'' ''id'') soup,
      find_first (named ''body'') soup]"

text \<open>
  The loop over the candidates. \<^verbatim>\<open>if candidate:\<close> holds for every tag (a tag is true
  whatever it contains) and fails for \<^verbatim>\<open>None\<close>; the first tag ends the loop.
\<close>

definition candidate_text :: "node \<Rightarrow> int \<Rightarrow> string" where
  "candidate_text candidate max_words =
     (let text = join '' '' (split (get_text_strip candidate));
          words = slice_to max_words (split text)
      in join '' '' words)"

fun first_candidate :: "node option list \<Rightarrow> int \<Rightarrow> string option" where
  "first_candidate [] max_words = None"
| "first_candidate (None # cs) max_words = first_candidate cs max_words"
| "first_candidate (Some c # cs) max_words = Some (candidate_text c max_words)"

text \<open>The body of the \<^verbatim>\<open>try\<close> block: an exception of any step ends it.\<close>

definition try_extract :: "world \<Rightarrow> string \<Rightarrow> int \<Rightarrow> exn + string option" where
  "try_extract w url max_words =
     (case requests_get w url of
        Inl e \<Rightarrow> Inl e
      | Inr resp \<Rightarrow>
          (case raise_for_status resp of
             Inl e \<Rightarrow> Inl e
           | Inr u \<Rightarrow>
               (case BeautifulSoup w (text' resp) of
                  Inl e \<Rightarrow> Inl e
                | Inr soup \<Rightarrow> Inr (first_candidate (content_candidates soup) max_words))))"

text \<open>\<^verbatim>\<open>except (requests.RequestException, ValueError)\<close>.\<close>

fun caught :: "exn \<Rightarrow> bool" where
  "caught (RequestException k) = True"
| "caught ValueError = True"
| "caught OtherException = False"

definition extract_news_content ::
  "world \<Rightarrow> string \<Rightarrow> int \<Rightarrow> event list \<times> (exn + string option)" where
  "extract_news_content w url max_words =
     (case try_extract w url max_words of
        Inl e \<Rightarrow> (if caught e then ([Printed url e], Inr None) else ([], Inl e))
      | Inr r \<Rightarrow> ([], Inr r))"

subsection \<open>analyze\_news\_impact\<close>

definition NL :: string where
  "NL = [CHR 0x0A]"

definition impact_prompt :: "string \<Rightarrow> string \<Rightarrow> string" where
  "impact_prompt content field =
     NL @ ''    News Content: '' @ content @ NL @
     ''    '' @ NL @
     ''    Analyze the potential impact of this news on the '' @ field @ '' sector:'' @ NL @
     ''    - Identify key events or developments'' @ NL @
     ''    - Explain potential short-term and long-term consequences'' @ NL @
     ''    - Provide specific insights related to '' @ field @ NL @
     ''    ''"

text \<open>\<^verbatim>\<open>not content\<close> holds for \<^verbatim>\<open>None\<close> and for the empty string.\<close>

fun falsy :: "string option \<Rightarrow> bool" where
  "falsy None = True"
| "falsy (Some s) = (s = [])"

definition analyze_news_impact ::
  "world \<Rightarrow> string \<Rightarrow> string \<Rightarrow> int \<Rightarrow> event list \<times> (exn + string option)" where
  "analyze_news_impact w url field max_words =
     (case extract_news_content w url max_words of
        (evs, Inl e) \<Rightarrow> (evs, Inl e)
      | (evs, Inr content) \<Rightarrow>
          (if falsy content then (evs, Inr None)
           else (evs @ [FormatPrompt], Inr (Some (impact_prompt (the content) field)))))"

subsection \<open>NewsImpactTool\<close>

definition NewsImpactTool_run ::
  "world \<Rightarrow> string \<Rightarrow> string \<Rightarrow> (string \<times> 'a) list \<Rightarrow> event list \<times> (exn + string)" where
  "NewsImpactTool_run w url field kwargs =
     (case analyze_news_impact w url field 500 of
        (evs, Inl e) \<Rightarrow> (evs, Inl e)
      | (evs, Inr None) \<Rightarrow> (evs, Inr ''Unable to extract or analyze the news article content.'')
      | (evs, Inr (Some result)) \<Rightarrow> (evs, Inr result))"

text \<open>
  A coroutine is a suspended computation; awaiting it runs the body. \<^verbatim>\<open>_arun\<close> has the
  single statement \<^verbatim>\<open>return self._run(url, field, **kwargs)\<close>.
\<close>

datatype 'r coroutine = Coroutine "unit \<Rightarrow> 'r"

fun await :: "'r coroutine \<Rightarrow> 'r" where
  "await (Coroutine body) = body ()"

definition NewsImpactTool_arun ::
  "world \<Rightarrow> string \<Rightarrow> string \<Rightarrow> (string \<times> 'a) list \<Rightarrow> (event list \<times> (exn + string)) coroutine" where
  "NewsImpactTool_arun w url field kwargs = Coroutine (\<lambda>u. NewsImpactTool_run w url field kwargs)"

subsection \<open>The claim as the specification words it\<close>

text \<open>
  The specification describes the second and third candidate as the first element, of any
  name, whose \<^verbatim>\<open>class\<close> (or \<^verbatim>\<open>id\<close>) matches the pattern.
\<close>

fun with_attr :: "string \<Rightarrow> node \<Rightarrow> bool" where
  "with_attr key (Tag n a cs) = attr_matches (map_of a key)"
| "with_attr key (NavigableString s) = False"
| "with_attr key (Comment s) = False"

definition spec_content_candidates :: "node list \<Rightarrow> node option list" where
  "spec_content_candidates soup =
     [find_first (named ''article'') soup,
      find_first (with_attr ''class'') soup,
      find_first (with_attr ''id'') soup,
      find_first (named ''body'') soup]"

subsection \<open>Words\<close>

definition no_space :: "string \<Rightarrow> bool" where
  "no_space w = list_all (\<lambda>c. \<not> isspace c) w"

definition is_word :: "string \<Rightarrow> bool" where
  "is_word w = (w \<noteq> [] \<and> no_space w)"

subsection \<open>Example environments\<close>

text \<open>Every URL answers with the given status and markup, which parses to the given tree.\<close>

definition page :: "nat \<Rightarrow> string \<Rightarrow> node list \<Rightarrow> world" where
  "page status html soup =
     \<lparr>requests_get = (\<lambda>url. Inr \<lparr>status_code = status, text' = html\<rparr>),
      BeautifulSoup = (\<lambda>markup. Inr soup)\<rparr>"

text \<open>Every request raises the given exception.\<close>

definition unreachable :: "exn \<Rightarrow> world" where
  "unreachable e = \<lparr>requests_get = (\<lambda>url. Inl e), BeautifulSoup = (\<lambda>markup. Inr [])\<rparr>"

definition html_inline :: string where
  "html_inline = ''<article>Hello <b>world</b></article>''"

definition soup_inline :: "node list" where
  "soup_inline =
     [Tag ''article'' [] [NavigableString ''Hello '', Tag ''b'' [] [NavigableString ''world'']]]"

definition html_rates :: string where
  "html_rates = ''<body><article> Rates  rise again </article></body>''"

definition soup_rates :: "node list" where
  "soup_rates = [Tag ''body'' [] [Tag ''article'' [] [NavigableString '' Rates  rise again '']]]"

definition html_empty_article :: string where
  "html_empty_article = ''<body><article></article><p>Other text</p></body>''"

definition soup_empty_article :: "node list" where
  "soup_empty_article =
     [Tag ''body'' [] [Tag ''article'' [] [], Tag ''p'' [] [NavigableString ''Other text'']]]"

definition html_section :: string where
  "html_section = ''<body><p>Intro</p><section class=\"content\">Main</section></body>''"

definition soup_section :: "node list" where
  "soup_section =
     [Tag ''body'' []
        [Tag ''p'' [] [NavigableString ''Intro''],
         Tag ''section'' [(''class'', AttrList [''content''])] [NavigableString ''Main'']]]"

definition html_choices :: string where
  "html_choices = ''<body><p>See other</p></body>''"

definition soup_choices :: "node list" where
  "soup_choices = [Tag ''body'' [] [Tag ''p'' [] [NavigableString ''See other'']]]"

definition html_rates_div :: string where
  "html_rates_div = ''<body><div id=\"Main-Content\">Rates rise again today</div></body>''"

definition soup_rates_div :: "node list" where
  "soup_rates_div =
     [Tag ''body'' []
        [Tag ''div'' [(''id'', AttrStr ''Main-Content'')]
           [NavigableString ''Rates rise again today'']]]"

section \<open>Properties\<close>

subsection \<open>Splitting and joining\<close>

lemma split_acc_no_space:
  "no_space v \<Longrightarrow> split_acc w (v @ s) = split_acc (w @ v) s"
  by (induction v arbitrary: w) (auto simp: no_space_def)

lemma split_acc_words:
  "no_space w \<Longrightarrow> list_all is_word (split_acc w s)"
  by (induction w s rule: split_acc.induct) (auto simp: is_word_def no_space_def)

lemma split_words: "list_all is_word (split s)"
  by (simp add: split_def split_acc_words no_space_def)

lemma isspace_space: "isspace CHR '' ''"
  by (simp add: isspace_def)

text \<open>Splitting undoes joining by single spaces on lists of words.\<close>

lemma split_join:
  "list_all is_word ws \<Longrightarrow> split (join '' '' ws) = ws"
proof (induction "'' ''" ws rule: join.induct)
  case 1
  then show ?case by (simp add: split_def)
next
  case (2 w)
  then have "split_acc [] (w @ []) = split_acc ([] @ w) []"
    using split_acc_no_space [of w "[]" "[]"] by (simp add: is_word_def)
  with 2 show ?case by (simp add: split_def is_word_def)
next
  case (3 w v ws)
  then have w: "w \<noteq> []" "no_space w" by (simp_all add: is_word_def)
  have "split (join '' '' (w # v # ws)) = split_acc [] (w @ (CHR '' '' # join '' '' (v # ws)))"
    by (simp add: split_def)
  also have "\<dots> = split_acc w (CHR '' '' # join '' '' (v # ws))"
    using split_acc_no_space [OF w(2), of "[]"] by simp
  also have "\<dots> = w # split (join '' '' (v # ws))"
    using w(1) isspace_space by (simp add: split_def)
  finally show ?case using 3 by simp
qed

lemma split_join_split: "split (join '' '' (split s)) = split s"
  by (rule split_join [OF split_words])

text \<open>
  The text taken from a candidate: the words of \<^verbatim>\<open>get_text(strip=True)\<close>, cut by the slice
  and joined by single spaces. With a bound of at least the number of words all of them
  are kept; with a smaller bound that is not negative, that many from the front.
\<close>

lemma candidate_text_eq:
  "candidate_text c max_words = join '' '' (slice_to max_words (split (get_text_strip c)))"
  by (simp add: candidate_text_def split_join_split)

lemma candidate_text_all:
  "int (length (split (get_text_strip c))) \<le> max_words \<Longrightarrow>
   candidate_text c max_words = join '' '' (split (get_text_strip c))"
  by (simp add: candidate_text_eq slice_to_def)

lemma candidate_text_prefix:
  "0 \<le> max_words \<Longrightarrow>
   candidate_text c max_words = join '' '' (take (nat max_words) (split (get_text_strip c)))"
  by (simp add: candidate_text_eq slice_to_def)

lemma candidate_text_no_words:
  "split (get_text_strip c) = [] \<Longrightarrow> candidate_text c max_words = []"
  by (simp add: candidate_text_def slice_to_def split_def)

subsection \<open>Searching the document\<close>

lemma find_first_holds: "find_first p ns = Some t \<Longrightarrow> p t"
  by (induction p ns rule: find_first.induct) (auto split: if_splits option.splits)

lemma find_first_weaker:
  "\<forall>n. q n \<longrightarrow> p n \<Longrightarrow> find_first p ns = None \<Longrightarrow> find_first q ns = None"
  by (induction p ns rule: find_first.induct) (auto split: if_splits option.splits)

lemma named_with_attr: "named_with nm key n \<Longrightarrow> with_attr key n"
  by (cases n) simp_all

lemma no_attr_no_div:
  "find_first (with_attr key) soup = None \<Longrightarrow> find_first (named_with nm key) soup = None"
  by (rule find_first_weaker [of "named_with nm key" "with_attr key"])
     (simp_all add: named_with_attr)

lemma first_candidate_skip:
  "first_candidate (replicate n None @ Some c # rest) max_words = Some (candidate_text c max_words)"
  by (induction n) simp_all

lemma first_candidate_Some:
  "first_candidate cs max_words = Some s \<Longrightarrow>
   \<exists>c. Some c \<in> set cs \<and> s = candidate_text c max_words"
  by (induction cs max_words rule: first_candidate.induct) auto

subsection \<open>Runs of extract\_news\_content\<close>

lemma try_extract_ok:
  assumes "requests_get w url = Inr r" and "\<not> (400 \<le> status_code r \<and> status_code r < 600)"
    and "BeautifulSoup w (text' r) = Inr soup"
  shows "try_extract w url max_words = Inr (first_candidate (content_candidates soup) max_words)"
  using assms by (simp add: try_extract_def raise_for_status_def)

lemma extract_ok:
  assumes "requests_get w url = Inr r" and "\<not> (400 \<le> status_code r \<and> status_code r < 600)"
    and "BeautifulSoup w (text' r) = Inr soup"
  shows "extract_news_content w url max_words
       = ([], Inr (first_candidate (content_candidates soup) max_words))"
  by (simp add: extract_news_content_def try_extract_ok [OF assms])

lemma extract_events:
  "FormatPrompt \<notin> set (fst (extract_news_content w url max_words))"
  by (simp add: extract_news_content_def split: sum.splits)

lemma extract_unreachable:
  "caught e \<Longrightarrow>
   extract_news_content (unreachable e) url max_words = ([Printed url e], Inr None)"
  by (simp add: extract_news_content_def try_extract_def unreachable_def)

lemma extract_page:
  "\<not> (400 \<le> status \<and> status < 600) \<Longrightarrow>
   extract_news_content (page status html soup) url max_words
     = ([], Inr (first_candidate (content_candidates soup) max_words))"
  by (rule extract_ok [where r = "\<lparr>status_code = status, text' = html\<rparr>"])
     (simp_all add: page_def)

lemma extract_rates:
  "extract_news_content (page 200 html_rates soup_rates) url 500
     = ([], Inr (Some ''Rates rise again''))"
  by (simp add: extract_page content_candidates_def soup_rates_def candidate_text_def
      get_text_strip_def strip_def isspace_def split_def slice_to_def)

lemma extract_rates_div:
  "extract_news_content (page 200 html_rates_div soup_rates_div) url 3
     = ([], Inr (Some ''Rates rise again''))"
  by (simp add: extract_page content_candidates_def soup_rates_div_def candidate_text_def
      get_text_strip_def strip_def isspace_def split_def slice_to_def re_search_def
      lower_char_def)

lemma extract_empty_article:
  "extract_news_content (page 200 html_empty_article soup_empty_article) url 500
     = ([], Inr (Some []))"
  by (simp add: extract_page content_candidates_def soup_empty_article_def candidate_text_def
      get_text_strip_def split_def slice_to_def)

subsection \<open>Runs of analyze\_news\_impact\<close>

lemma analyze_present:
  assumes "snd (extract_news_content w url max_words) = Inr (Some content)" and "content \<noteq> []"
  shows "snd (analyze_news_impact w url field max_words)
       = Inr (Some (impact_prompt content field))"
proof -
  obtain evs where e: "extract_news_content w url max_words = (evs, Inr (Some content))"
    using assms(1) by (cases "extract_news_content w url max_words") auto
  show ?thesis
    using assms(2) by (simp add: analyze_news_impact_def e)
qed

lemma analyze_rates:
  "analyze_news_impact (page 200 html_rates soup_rates) url field 500
     = ([FormatPrompt], Inr (Some (impact_prompt ''Rates rise again'' field)))"
  by (simp add: analyze_news_impact_def extract_rates)

lemma analyze_unreachable:
  "caught e \<Longrightarrow>
   analyze_news_impact (unreachable e) url field max_words = ([Printed url e], Inr None)"
  by (simp add: analyze_news_impact_def extract_unreachable)

subsection \<open>Claims about extract\_news\_content\<close>

text \<open>
  Claim C1 states that for a 200 response with an \<^verbatim>\<open><article>\<close> element the call returns the
  words of the element's text, joined by single spaces and cut to \<open>max_words\<close>. The code
  departs from it when the words lie in more than one string of the element: for the page
  \<^verbatim>\<open><article>Hello <b>world</b></article>\<close> the text of the element has the two words
  \<open>Hello\<close> and \<open>world\<close>, and the call returns the single word \<open>Helloworld\<close>, because
  \<^verbatim>\<open>get_text(strip=True)\<close> strips every string on its own and concatenates the results with
  no separator.
\<close>

theorem inline_markup_merges_words:
  "find_first (named ''article'') soup_inline
     = Some (Tag ''article'' []
         [NavigableString ''Hello '', Tag ''b'' [] [NavigableString ''world'']])
   \<and> split (text_content
        (Tag ''article'' []
           [NavigableString ''Hello '', Tag ''b'' [] [NavigableString ''world'']]))
       = [''Hello'', ''world'']
   \<and> extract_news_content (page 200 html_inline soup_inline) ''http://example.com/a'' 500
       = ([], Inr (Some ''Helloworld''))"
  by (simp add: extract_page content_candidates_def soup_inline_def candidate_text_def
      get_text_strip_def strip_def isspace_def split_def slice_to_def)

text \<open>
  Claim C2. The first candidate that exists is taken even when its text has no words: the
  call then returns the empty string, whatever the later candidates hold.
\<close>

theorem empty_candidate_short_circuits:
  assumes "requests_get w url = Inr r" and "\<not> (400 \<le> status_code r \<and> status_code r < 600)"
    and "BeautifulSoup w (text' r) = Inr soup"
    and "content_candidates soup = replicate n None @ Some c # rest"
    and "split (get_text_strip c) = []"
  shows "extract_news_content w url max_words = ([], Inr (Some []))"
  using assms(4,5)
  by (simp add: extract_ok [OF assms(1-3)] first_candidate_skip candidate_text_no_words)

theorem empty_candidate_short_circuits_witness:
  "requests_get (page 200 html_empty_article soup_empty_article) ''http://example.com/a''
     = Inr \<lparr>status_code = 200, text' = html_empty_article\<rparr>
   \<and> \<not> (400 \<le> status_code \<lparr>status_code = 200, text' = html_empty_article\<rparr>
        \<and> status_code \<lparr>status_code = 200, text' = html_empty_article\<rparr> < 600)
   \<and> BeautifulSoup (page 200 html_empty_article soup_empty_article)
        (text' \<lparr>status_code = 200, text' = html_empty_article\<rparr>) = Inr soup_empty_article
   \<and> content_candidates soup_empty_article
       = replicate 0 None @ Some (Tag ''article'' [] [])
           # [None, None,
              Some (Tag ''body'' []
                [Tag ''article'' [] [], Tag ''p'' [] [NavigableString ''Other text'']])]
   \<and> split (get_text_strip (Tag ''article'' [] [])) = []
   \<and> candidate_text
        (Tag ''body'' [] [Tag ''article'' [] [], Tag ''p'' [] [NavigableString ''Other text'']])
        500
       = ''Other text''
   \<and> extract_news_content (page 200 html_empty_article soup_empty_article)
        ''http://example.com/a'' 500 = ([], Inr (Some []))"
proof -
  let ?r = "\<lparr>status_code = 200, text' = html_empty_article\<rparr>"
  let ?body =
    "Tag ''body'' [] [Tag ''article'' [] [], Tag ''p'' [] [NavigableString ''Other text'']]"
  have h1: "requests_get (page 200 html_empty_article soup_empty_article)
      ''http://example.com/a'' = Inr ?r"
    by (simp add: page_def)
  have h2: "\<not> (400 \<le> status_code ?r \<and> status_code ?r < 600)"
    by simp
  have h3: "BeautifulSoup (page 200 html_empty_article soup_empty_article) (text' ?r)
      = Inr soup_empty_article"
    by (simp add: page_def)
  have h4: "content_candidates soup_empty_article
       = replicate 0 None @ Some (Tag ''article'' [] []) # [None, None, Some ?body]"
    by (simp add: content_candidates_def soup_empty_article_def)
  have h5: "split (get_text_strip (Tag ''article'' [] [])) = []"
    by (simp add: get_text_strip_def split_def)
  have b: "candidate_text ?body 500 = ''Other text''"
    by (simp add: candidate_text_def get_text_strip_def strip_def isspace_def split_def
        slice_to_def)
  show ?thesis
    using h1 h2 h3 h4 h5 b empty_candidate_short_circuits [OF h1 h2 h3 h4 h5, of 500]
    by simp
qed

text \<open>
  Claim C3 states that a fetch that times out, fails in transport or answers with a status
  outside 2xx gives an absent result. \<^verbatim>\<open>raise_for_status\<close> raises for the 4xx and 5xx codes
  only, so a response with status 300 and a body is processed like a successful one.
\<close>

theorem redirect_status_counterexample:
  "requests_get (page 300 html_choices soup_choices) ''http://example.com/a''
     = Inr \<lparr>status_code = 300, text' = html_choices\<rparr>
   \<and> \<not> (200 \<le> status_code \<lparr>status_code = 300, text' = html_choices\<rparr>
          \<and> status_code \<lparr>status_code = 300, text' = html_choices\<rparr> < 300)
   \<and> extract_news_content (page 300 html_choices soup_choices) ''http://example.com/a'' 500
       = ([], Inr (Some ''See other''))"
proof -
  have "extract_news_content (page 300 html_choices soup_choices) ''http://example.com/a'' 500
       = ([], Inr (Some ''See other''))"
    by (simp add: extract_page content_candidates_def soup_choices_def candidate_text_def
        get_text_strip_def strip_def isspace_def split_def slice_to_def)
  then show ?thesis
    by (simp add: page_def)
qed

text \<open>
  Claim C3, amended. When the request raises a \<^verbatim>\<open>RequestException\<close> (a timeout, a connection
  error, or any other of its kinds), or the response has a 4xx or 5xx status, the call prints
  a line, returns \<^verbatim>\<open>None\<close> and raises nothing. A result is present only when the request
  returned, the status check passed, the parser returned a document, and one of the
  candidates of that document exists.
\<close>

theorem fetch_failure_absent:
  "(requests_get w url = Inl (RequestException k) \<longrightarrow>
      extract_news_content w url max_words = ([Printed url (RequestException k)], Inr None))
   \<and> (requests_get w url = Inr r \<and> 400 \<le> status_code r \<and> status_code r < 600 \<longrightarrow>
      extract_news_content w url max_words
        = ([Printed url (RequestException HTTPError)], Inr None))
   \<and> (snd (extract_news_content w url max_words) = Inr (Some s) \<longrightarrow>
      (\<exists>r' soup c. requests_get w url = Inr r' \<and> raise_for_status r' = Inr ()
         \<and> BeautifulSoup w (text' r') = Inr soup
         \<and> Some c \<in> set (content_candidates soup) \<and> s = candidate_text c max_words))"
proof (intro conjI impI)
  assume "requests_get w url = Inl (RequestException k)"
  then show "extract_news_content w url max_words
      = ([Printed url (RequestException k)], Inr None)"
    by (simp add: extract_news_content_def try_extract_def)
next
  assume "requests_get w url = Inr r \<and> 400 \<le> status_code r \<and> status_code r < 600"
  then show "extract_news_content w url max_words
      = ([Printed url (RequestException HTTPError)], Inr None)"
    by (simp add: extract_news_content_def try_extract_def raise_for_status_def)
next
  assume a: "snd (extract_news_content w url max_words) = Inr (Some s)"
  then have t: "try_extract w url max_words = Inr (Some s)"
    by (auto simp: extract_news_content_def split: sum.splits if_splits)
  then obtain r' where r: "requests_get w url = Inr r'"
    by (auto simp: try_extract_def split: sum.splits)
  with t have s: "raise_for_status r' = Inr ()"
    by (auto simp: try_extract_def split: sum.splits)
  with t r obtain soup where b: "BeautifulSoup w (text' r') = Inr soup"
    by (auto simp: try_extract_def split: sum.splits)
  with t r s have "first_candidate (content_candidates soup) max_words = Some s"
    by (simp add: try_extract_def)
  then obtain c where "Some c \<in> set (content_candidates soup)" "s = candidate_text c max_words"
    using first_candidate_Some by blast
  with r s b show "\<exists>r' soup c. requests_get w url = Inr r' \<and> raise_for_status r' = Inr ()
         \<and> BeautifulSoup w (text' r') = Inr soup
         \<and> Some c \<in> set (content_candidates soup) \<and> s = candidate_text c max_words"
    by blast
qed

theorem fetch_failure_absent_witness:
  "requests_get (unreachable (RequestException Timeout)) ''http://example.com/a''
     = Inl (RequestException Timeout)
   \<and> extract_news_content (unreachable (RequestException Timeout)) ''http://example.com/a'' 500
       = ([Printed ''http://example.com/a'' (RequestException Timeout)], Inr None)
   \<and> requests_get (page 404 html_rates soup_rates) ''http://example.com/a''
       = Inr \<lparr>status_code = 404, text' = html_rates\<rparr>
   \<and> 400 \<le> status_code \<lparr>status_code = 404, text' = html_rates\<rparr>
   \<and> status_code \<lparr>status_code = 404, text' = html_rates\<rparr> < 600
   \<and> extract_news_content (page 404 html_rates soup_rates) ''http://example.com/a'' 500
       = ([Printed ''http://example.com/a'' (RequestException HTTPError)], Inr None)
   \<and> snd (extract_news_content (page 200 html_rates soup_rates) ''http://example.com/a'' 500)
       = Inr (Some ''Rates rise again'')
   \<and> (\<exists>r' soup c.
         requests_get (page 200 html_rates soup_rates) ''http://example.com/a'' = Inr r'
         \<and> raise_for_status r' = Inr ()
         \<and> BeautifulSoup (page 200 html_rates soup_rates) (text' r') = Inr soup
         \<and> Some c \<in> set (content_candidates soup)
         \<and> ''Rates rise again'' = candidate_text c 500)"
proof -
  have h1: "requests_get (unreachable (RequestException Timeout)) ''http://example.com/a''
     = Inl (RequestException Timeout)"
    by (simp add: unreachable_def)
  have h2: "requests_get (page 404 html_rates soup_rates) ''http://example.com/a''
       = Inr \<lparr>status_code = 404, text' = html_rates\<rparr>
     \<and> 400 \<le> status_code \<lparr>status_code = 404, text' = html_rates\<rparr>
     \<and> status_code \<lparr>status_code = 404, text' = html_rates\<rparr> < 600"
    by (simp add: page_def)
  have h3: "snd (extract_news_content (page 200 html_rates soup_rates) ''http://example.com/a'' 500)
       = Inr (Some ''Rates rise again'')"
    by (simp add: extract_rates)
  show ?thesis
    using h1 h2 h3
      fetch_failure_absent [where w = "unreachable (RequestException Timeout)"
        and url = "''http://example.com/a''" and k = Timeout and max_words = 500]
      fetch_failure_absent [where w = "page 404 html_rates soup_rates"
        and url = "''http://example.com/a''"
        and r = "\<lparr>status_code = 404, text' = html_rates\<rparr>" and max_words = 500]
      fetch_failure_absent [where w = "page 200 html_rates soup_rates"
        and url = "''http://example.com/a''" and s = "''Rates rise again''" and max_words = 500]
    by simp
qed

text \<open>
  Claim C4 states the order of the candidates as: the first \<^verbatim>\<open><article>\<close>, the first element
  whose \<^verbatim>\<open>class\<close> matches the pattern, the first element whose \<^verbatim>\<open>id\<close> matches it, the body.
  The code looks for \<^verbatim>\<open>div\<close> elements only in the second and third place: in the page
  below the first element with a matching class is a \<^verbatim>\<open><section>\<close>, whose text the claimed
  order would return, and the call returns the text of the body.
\<close>

theorem any_element_class_counterexample:
  "first_candidate (spec_content_candidates soup_section) 500 = Some ''Main''
   \<and> extract_news_content (page 200 html_section soup_section) ''http://example.com/a'' 500
       = ([], Inr (Some ''IntroMain''))"
  by (simp add: extract_page content_candidates_def spec_content_candidates_def
      soup_section_def candidate_text_def get_text_strip_def strip_def isspace_def split_def
      slice_to_def re_search_def lower_char_def)

text \<open>
  Claim C4, amended. After a fetch and a parse that succeed, the result is the text taken
  from the first of these that exists: the first \<^verbatim>\<open><article>\<close>, the first \<^verbatim>\<open><div>\<close> whose
  \<^verbatim>\<open>class\<close> matches the pattern, the first \<^verbatim>\<open><div>\<close> whose \<^verbatim>\<open>id\<close> matches it, the body; and it
  is absent when none exists. In particular, for a document with no \<^verbatim>\<open><article>\<close>, no
  element at all with a matching \<^verbatim>\<open>class\<close> or \<^verbatim>\<open>id\<close>, and a body, the result is the text
  taken from the body.
\<close>

theorem candidate_priority:
  assumes "requests_get w url = Inr r" and "\<not> (400 \<le> status_code r \<and> status_code r < 600)"
    and "BeautifulSoup w (text' r) = Inr soup"
  shows "snd (extract_news_content w url max_words)
       = Inr (case find_first (named ''article'') soup of
                Some a \<Rightarrow> Some (candidate_text a max_words)
              | None \<Rightarrow>
                  (case find_first (named_with ''div'' ''class'') soup of
                     Some d \<Rightarrow> Some (candidate_text d max_words)
                   | None \<Rightarrow>
                       (case find_first (named_with ''div'' ''id'') soup of
                          Some d \<Rightarrow> Some (candidate_text d max_words)
                        | None \<Rightarrow>
                            (case find_first (named ''body'') soup of
                               Some b \<Rightarrow> Some (candidate_text b max_words)
                             | None \<Rightarrow> None))))
     \<and> (find_first (named ''article'') soup = None
          \<and> find_first (with_attr ''class'') soup = None
          \<and> find_first (with_attr ''id'') soup = None
          \<and> find_first (named ''body'') soup = Some body \<longrightarrow>
        snd (extract_news_content w url max_words) = Inr (Some (candidate_text body max_words)))"
proof (intro conjI impI)
  show "snd (extract_news_content w url max_words)
       = Inr (case find_first (named ''article'') soup of
                Some a \<Rightarrow> Some (candidate_text a max_words)
              | None \<Rightarrow>
                  (case find_first (named_with ''div'' ''class'') soup of
                     Some d \<Rightarrow> Some (candidate_text d max_words)
                   | None \<Rightarrow>
                       (case find_first (named_with ''div'' ''id'') soup of
                          Some d \<Rightarrow> Some (candidate_text d max_words)
                        | None \<Rightarrow>
                            (case find_first (named ''body'') soup of
                               Some b \<Rightarrow> Some (candidate_text b max_words)
                             | None \<Rightarrow> None))))"
    by (simp add: extract_ok [OF assms] content_candidates_def split: option.splits)
next
  assume a: "find_first (named ''article'') soup = None
          \<and> find_first (with_attr ''class'') soup = None
          \<and> find_first (with_attr ''id'') soup = None
          \<and> find_first (named ''body'') soup = Some body"
  then have "find_first (named_with ''div'' ''class'') soup = None"
    and "find_first (named_with ''div'' ''id'') soup = None"
    by (simp_all add: no_attr_no_div)
  with a show "snd (extract_news_content w url max_words)
      = Inr (Some (candidate_text body max_words))"
    by (simp add: extract_ok [OF assms] content_candidates_def)
qed

theorem candidate_priority_witness:
  "requests_get (page 200 html_choices soup_choices) ''http://example.com/a''
     = Inr \<lparr>status_code = 200, text' = html_choices\<rparr>
   \<and> \<not> (400 \<le> status_code \<lparr>status_code = 200, text' = html_choices\<rparr>
        \<and> status_code \<lparr>status_code = 200, text' = html_choices\<rparr> < 600)
   \<and> BeautifulSoup (page 200 html_choices soup_choices)
        (text' \<lparr>status_code = 200, text' = html_choices\<rparr>) = Inr soup_choices
   \<and> find_first (named ''article'') soup_choices = None
   \<and> find_first (with_attr ''class'') soup_choices = None
   \<and> find_first (with_attr ''id'') soup_choices = None
   \<and> find_first (named ''body'') soup_choices
       = Some (Tag ''body'' [] [Tag ''p'' [] [NavigableString ''See other'']])
   \<and> snd (extract_news_content (page 200 html_choices soup_choices) ''http://example.com/a'' 500)
       = Inr (Some ''See other'')"
proof -
  let ?r = "\<lparr>status_code = 200, text' = html_choices\<rparr>"
  let ?body = "Tag ''body'' [] [Tag ''p'' [] [NavigableString ''See other'']]"
  have h1: "requests_get (page 200 html_choices soup_choices) ''http://example.com/a'' = Inr ?r"
    by (simp add: page_def)
  have h2: "\<not> (400 \<le> status_code ?r \<and> status_code ?r < 600)"
    by simp
  have h3: "BeautifulSoup (page 200 html_choices soup_choices) (text' ?r) = Inr soup_choices"
    by (simp add: page_def)
  have h4: "find_first (named ''article'') soup_choices = None
          \<and> find_first (with_attr ''class'') soup_choices = None
          \<and> find_first (with_attr ''id'') soup_choices = None
          \<and> find_first (named ''body'') soup_choices = Some ?body"
    by (simp add: soup_choices_def)
  have b: "candidate_text ?body 500 = ''See other''"
    by (simp add: candidate_text_def get_text_strip_def strip_def isspace_def split_def
        slice_to_def)
  show ?thesis
    using h1 h2 h3 h4 b candidate_priority [OF h1 h2 h3, of 500 ?body, THEN conjunct2]
    by simp
qed

subsection \<open>Claims about analyze\_news\_impact\<close>

text \<open>The fixed lines and the two arguments occur in the prompt.\<close>

lemma prompt_has_content: "sublist content (impact_prompt content field)"
proof -
  have "impact_prompt content field =
      (NL @ ''    News Content: '') @ content @
      (NL @ ''    '' @ NL @
       ''    Analyze the potential impact of this news on the '' @ field @ '' sector:'' @ NL @
       ''    - Identify key events or developments'' @ NL @
       ''    - Explain potential short-term and long-term consequences'' @ NL @
       ''    - Provide specific insights related to '' @ field @ NL @ ''    '')"
    by (simp add: impact_prompt_def)
  then show ?thesis
    by (metis sublist_appendI)
qed

lemma prompt_has_field: "sublist field (impact_prompt content field)"
proof -
  have "impact_prompt content field =
      (NL @ ''    News Content: '' @ content @ NL @ ''    '' @ NL @
       ''    Analyze the potential impact of this news on the '') @ field @
      ('' sector:'' @ NL @
       ''    - Identify key events or developments'' @ NL @
       ''    - Explain potential short-term and long-term consequences'' @ NL @
       ''    - Provide specific insights related to '' @ field @ NL @ ''    '')"
    by (simp add: impact_prompt_def)
  then show ?thesis
    by (metis sublist_appendI)
qed

lemma prompt_has_events:
  "sublist ''- Identify key events or developments'' (impact_prompt content field)"
proof -
  have "impact_prompt content field =
      (NL @ ''    News Content: '' @ content @ NL @ ''    '' @ NL @
       ''    Analyze the potential impact of this news on the '' @ field @ '' sector:'' @ NL @
       ''    '') @ ''- Identify key events or developments'' @
      (NL @ ''    - Explain potential short-term and long-term consequences'' @ NL @
       ''    - Provide specific insights related to '' @ field @ NL @ ''    '')"
    by (simp add: impact_prompt_def)
  then show ?thesis
    by (metis sublist_appendI)
qed

lemma prompt_has_consequences:
  "sublist ''- Explain potential short-term and long-term consequences''
     (impact_prompt content field)"
proof -
  have "impact_prompt content field =
      (NL @ ''    News Content: '' @ content @ NL @ ''    '' @ NL @
       ''    Analyze the potential impact of this news on the '' @ field @ '' sector:'' @ NL @
       ''    - Identify key events or developments'' @ NL @ ''    '') @
      ''- Explain potential short-term and long-term consequences'' @
      (NL @ ''    - Provide specific insights related to '' @ field @ NL @ ''    '')"
    by (simp add: impact_prompt_def)
  then show ?thesis
    by (metis sublist_appendI)
qed

lemma prompt_has_insights:
  "sublist (''- Provide specific insights related to '' @ field) (impact_prompt content field)"
proof -
  have "impact_prompt content field =
      (NL @ ''    News Content: '' @ content @ NL @ ''    '' @ NL @
       ''    Analyze the potential impact of this news on the '' @ field @ '' sector:'' @ NL @
       ''    - Identify key events or developments'' @ NL @
       ''    - Explain potential short-term and long-term consequences'' @ NL @ ''    '') @
      (''- Provide specific insights related to '' @ field) @ (NL @ ''    '')"
    by (simp add: impact_prompt_def)
  then show ?thesis
    by (metis sublist_appendI)
qed

text \<open>
  Claim C5. For extracted content that is present and not empty, and any field label,
  \<open>analyze_news_impact\<close> returns a prompt that contains the content, the field label, and
  the three requests: key events or developments, short-term and long-term consequences,
  insights related to the field.
\<close>

theorem prompt_contents:
  assumes "snd (extract_news_content w url max_words) = Inr (Some content)" and "content \<noteq> []"
  shows "snd (analyze_news_impact w url field max_words)
         = Inr (Some (impact_prompt content field))
       \<and> sublist content (impact_prompt content field)
       \<and> sublist field (impact_prompt content field)
       \<and> sublist ''- Identify key events or developments'' (impact_prompt content field)
       \<and> sublist ''- Explain potential short-term and long-term consequences''
            (impact_prompt content field)
       \<and> sublist (''- Provide specific insights related to '' @ field)
            (impact_prompt content field)"
  using analyze_present [OF assms] prompt_has_content prompt_has_field prompt_has_events
    prompt_has_consequences prompt_has_insights
  by simp

theorem prompt_contents_witness:
  "snd (extract_news_content (page 200 html_rates soup_rates) ''http://example.com/a'' 500)
     = Inr (Some ''Rates rise again'')
   \<and> ''Rates rise again'' \<noteq> []
   \<and> snd (analyze_news_impact (page 200 html_rates soup_rates) ''http://example.com/a''
            ''technology'' 500)
       = Inr (Some (impact_prompt ''Rates rise again'' ''technology''))
   \<and> sublist ''Rates rise again'' (impact_prompt ''Rates rise again'' ''technology'')
   \<and> sublist ''technology'' (impact_prompt ''Rates rise again'' ''technology'')
   \<and> sublist ''- Identify key events or developments''
        (impact_prompt ''Rates rise again'' ''technology'')
   \<and> sublist ''- Explain potential short-term and long-term consequences''
        (impact_prompt ''Rates rise again'' ''technology'')
   \<and> sublist ''- Provide specific insights related to technology''
        (impact_prompt ''Rates rise again'' ''technology'')"
proof -
  have h1: "snd (extract_news_content (page 200 html_rates soup_rates) ''http://example.com/a'' 500)
     = Inr (Some ''Rates rise again'')"
    by (simp add: extract_rates)
  have h2: "''Rates rise again'' \<noteq> []"
    by simp
  show ?thesis
    using h1 prompt_contents [OF h1 h2, of "''technology''"] by simp
qed

text \<open>
  Claim C6. When the extraction gives no content (\<^verbatim>\<open>None\<close>), \<open>analyze_news_impact\<close>
  returns \<^verbatim>\<open>None\<close> as well, and the prompt template is not evaluated during the call.
\<close>

theorem analyze_absent_content:
  assumes "snd (extract_news_content w url max_words) = Inr None"
  shows "snd (analyze_news_impact w url field max_words) = Inr None
       \<and> FormatPrompt \<notin> set (fst (analyze_news_impact w url field max_words))"
proof -
  obtain evs where e: "extract_news_content w url max_words = (evs, Inr None)"
    using assms by (cases "extract_news_content w url max_words") auto
  have "FormatPrompt \<notin> set evs"
    using extract_events [of w url max_words] e by simp
  then show ?thesis
    by (simp add: analyze_news_impact_def e)
qed

theorem analyze_absent_content_witness:
  "snd (extract_news_content (unreachable (RequestException Timeout))
          ''http://example.com/a'' 500) = Inr None
   \<and> snd (analyze_news_impact (unreachable (RequestException Timeout))
            ''http://example.com/a'' ''finance'' 500) = Inr None
   \<and> FormatPrompt \<notin> set (fst (analyze_news_impact (unreachable (RequestException Timeout))
            ''http://example.com/a'' ''finance'' 500))"
proof -
  have h: "snd (extract_news_content (unreachable (RequestException Timeout))
      ''http://example.com/a'' 500) = Inr None"
    by (simp add: extract_unreachable)
  show ?thesis
    using h analyze_absent_content [OF h, of "''finance''"] by simp
qed

text \<open>
  Claim C8. The prompt depends on the extracted content and the field label only: two
  calls of \<open>analyze_news_impact\<close>, in any two environments and with any URLs and word
  limits, whose extraction gave the same content, return the same result for the same
  field.
\<close>

theorem prompt_deterministic:
  assumes "snd (extract_news_content w1 url1 max_words1) = Inr (Some content)"
    and "snd (extract_news_content w2 url2 max_words2) = Inr (Some content)"
  shows "snd (analyze_news_impact w1 url1 field max_words1)
       = snd (analyze_news_impact w2 url2 field max_words2)"
proof -
  obtain evs1 where e1: "extract_news_content w1 url1 max_words1 = (evs1, Inr (Some content))"
    using assms(1) by (cases "extract_news_content w1 url1 max_words1") auto
  obtain evs2 where e2: "extract_news_content w2 url2 max_words2 = (evs2, Inr (Some content))"
    using assms(2) by (cases "extract_news_content w2 url2 max_words2") auto
  show ?thesis
    by (simp add: analyze_news_impact_def e1 e2)
qed

theorem prompt_deterministic_witness:
  "snd (extract_news_content (page 200 html_rates soup_rates) ''http://example.com/a'' 500)
     = Inr (Some ''Rates rise again'')
   \<and> snd (extract_news_content (page 200 html_rates_div soup_rates_div)
            ''http://example.org/b'' 3)
       = Inr (Some ''Rates rise again'')
   \<and> snd (analyze_news_impact (page 200 html_rates soup_rates) ''http://example.com/a''
            ''finance'' 500)
       = snd (analyze_news_impact (page 200 html_rates_div soup_rates_div)
            ''http://example.org/b'' ''finance'' 3)
   \<and> snd (analyze_news_impact (page 200 html_rates soup_rates) ''http://example.com/a''
            ''finance'' 500)
       = Inr (Some (impact_prompt ''Rates rise again'' ''finance''))"
proof -
  have h1: "snd (extract_news_content (page 200 html_rates soup_rates) ''http://example.com/a'' 500)
     = Inr (Some ''Rates rise again'')"
    by (simp add: extract_rates)
  have h2: "snd (extract_news_content (page 200 html_rates_div soup_rates_div)
      ''http://example.org/b'' 3) = Inr (Some ''Rates rise again'')"
    by (simp add: extract_rates_div)
  have p: "snd (analyze_news_impact (page 200 html_rates soup_rates) ''http://example.com/a''
      ''finance'' 500) = Inr (Some (impact_prompt ''Rates rise again'' ''finance''))"
    by (simp add: analyze_rates)
  show ?thesis
    using h1 h2 p prompt_deterministic [OF h1 h2, of "''finance''"] by simp
qed

text \<open>
  Claim C9. When the extraction gives the empty string, \<open>analyze_news_impact\<close> returns
  \<^verbatim>\<open>None\<close>, as it does for absent content, and the prompt template is not evaluated.
\<close>

theorem analyze_empty_content:
  assumes "snd (extract_news_content w url max_words) = Inr (Some [])"
  shows "snd (analyze_news_impact w url field max_words) = Inr None
       \<and> FormatPrompt \<notin> set (fst (analyze_news_impact w url field max_words))"
proof -
  obtain evs where e: "extract_news_content w url max_words = (evs, Inr (Some []))"
    using assms by (cases "extract_news_content w url max_words") auto
  have "FormatPrompt \<notin> set evs"
    using extract_events [of w url max_words] e by simp
  then show ?thesis
    by (simp add: analyze_news_impact_def e)
qed

theorem analyze_empty_content_witness:
  "snd (extract_news_content (page 200 html_empty_article soup_empty_article)
          ''http://example.com/a'' 500) = Inr (Some [])
   \<and> snd (analyze_news_impact (page 200 html_empty_article soup_empty_article)
            ''http://example.com/a'' ''finance'' 500) = Inr None
   \<and> FormatPrompt \<notin> set (fst (analyze_news_impact (page 200 html_empty_article
            soup_empty_article) ''http://example.com/a'' ''finance'' 500))"
proof -
  have h: "snd (extract_news_content (page 200 html_empty_article soup_empty_article)
      ''http://example.com/a'' 500) = Inr (Some [])"
    by (simp add: extract_empty_article)
  show ?thesis
    using h analyze_empty_content [OF h, of "''finance''"] by simp
qed

subsection \<open>Claims about NewsImpactTool\<close>

text \<open>
  Claim C7. \<open>NewsImpactTool._run\<close> turns an absent analysis into the fixed message, and
  returns a prompt as it is.
\<close>

theorem run_translates_absent:
  "(snd (analyze_news_impact w url field 500) = Inr None \<longrightarrow>
      snd (NewsImpactTool_run w url field kwargs)
        = Inr ''Unable to extract or analyze the news article content.'')
   \<and> (snd (analyze_news_impact w url field 500) = Inr (Some prompt) \<longrightarrow>
      snd (NewsImpactTool_run w url field kwargs) = Inr prompt)"
  by (cases "analyze_news_impact w url field 500")
     (auto simp: NewsImpactTool_run_def)

theorem run_translates_absent_witness:
  "snd (analyze_news_impact (unreachable (RequestException ConnectionError))
          ''http://example.com/a'' ''finance'' 500) = Inr None
   \<and> snd (NewsImpactTool_run (unreachable (RequestException ConnectionError))
            ''http://example.com/a'' ''finance'' ([] :: (string \<times> unit) list))
        = Inr ''Unable to extract or analyze the news article content.''
   \<and> snd (analyze_news_impact (page 200 html_rates soup_rates) ''http://example.com/a''
            ''finance'' 500)
        = Inr (Some (impact_prompt ''Rates rise again'' ''finance''))
   \<and> snd (NewsImpactTool_run (page 200 html_rates soup_rates) ''http://example.com/a''
            ''finance'' ([] :: (string \<times> unit) list))
        = Inr (impact_prompt ''Rates rise again'' ''finance'')"
proof -
  have h1: "snd (analyze_news_impact (unreachable (RequestException ConnectionError))
      ''http://example.com/a'' ''finance'' 500) = Inr None"
    by (simp add: analyze_unreachable)
  have h2: "snd (analyze_news_impact (page 200 html_rates soup_rates) ''http://example.com/a''
      ''finance'' 500) = Inr (Some (impact_prompt ''Rates rise again'' ''finance''))"
    by (simp add: analyze_rates)
  show ?thesis
    using h1 h2
      run_translates_absent [where w = "unreachable (RequestException ConnectionError)"
        and url = "''http://example.com/a''" and field = "''finance''"
        and kwargs = "[] :: (string \<times> unit) list"]
      run_translates_absent [where w = "page 200 html_rates soup_rates"
        and url = "''http://example.com/a''" and field = "''finance''"
        and prompt = "impact_prompt ''Rates rise again'' ''finance''"
        and kwargs = "[] :: (string \<times> unit) list"]
    by simp
qed

text \<open>
  Claim C10. Awaiting \<open>NewsImpactTool._arun\<close> gives what \<open>NewsImpactTool._run\<close> gives on
  the same arguments, the printed lines included.
\<close>

theorem arun_same_as_run:
  "await (NewsImpactTool_arun w url field kwargs) = NewsImpactTool_run w url field kwargs"
  by (simp add: NewsImpactTool_arun_def)

end
